theory Spec2Isabelle
  imports Complex_Main
begin

section \<open>The video script (src/video.py): data and the outside world\<close>

text \<open>
  The script talks to four things outside itself: the Gemini SDK (\<open>genai.upload_file\<close>,
  \<open>genai.get_file\<close>, \<open>genai.delete_file\<close>, \<open>model.generate_content\<close>), the wall clock
  (\<open>time.time\<close>, \<open>time.sleep\<close>), the local file system (the temporary file) and the
  Streamlit page (\<open>st.info\<close>, \<open>st.error\<close>, ...). The embedding makes each of them explicit:
  what the outside answers is an \<open>env\<close> (a script of replies, indexed by how many requests
  came before), and what the script did to the outside is a \<open>world\<close> that every operation
  takes and returns.

  What the embedding leaves out: the calls to Streamlit, \<open>time.time\<close> and \<open>time.sleep\<close> are
  taken not to raise; a reading of the clock is a real number and the subtraction of line
  61 is exact (no rounding of floats); the decorator \<open>st.cache_resource\<close> of line 37, which
  skips the body when the same file is passed again, is not modelled, so every statement
  about \<open>upload_video_to_gemini\<close> is about a run of its body; and \<open>except Exception\<close> is
  taken to catch every exception the SDK and the file system raise.
\<close>

datatype exn = Exception string

text \<open>
  The SDK's file object, as far as the script reads it: \<open>.name\<close>, \<open>.uri\<close> and
  \<open>.state.name\<close>. The script only ever compares \<open>.state.name\<close> with string literals, so
  the state is kept as the string the SDK gives (its enum has the names
  \<open>STATE_UNSPECIFIED\<close>, \<open>PROCESSING\<close>, \<open>ACTIVE\<close> and \<open>FAILED\<close>).
\<close>

record remote_file =
  name :: string
  uri :: string
  state_name :: string

text \<open>Streamlit's uploaded file: \<open>.name\<close> and \<open>.getvalue()\<close>.\<close>

record uploaded_file =
  upload_name :: string
  getvalue :: string

text \<open>
  The reply of \<open>model.generate_content\<close>: \<open>.candidates\<close>, and \<open>.text\<close>, an accessor
  that can raise.
\<close>

record response =
  candidates :: "string list"
  response_text :: "exn + string"

text \<open>
  The messages the script puts on the page, one constructor per call site of
  \<open>upload_video_to_gemini\<close>, \<open>get_gemini_response\<close> and the clear button, with the values
  its f-string interpolates (the literal wording and the emoji are presentation).
\<close>

datatype level = INFO | ERROR | SUCCESS | WARNING

datatype message =
    Uploading string
  | Uploaded string string
  | TimedOut int
  | VideoState string int
  | ProcessingFailed
  | ReadyForAnalysis string
  | UploadOrProcessingError exn
  | Thinking
  | GenerationError exn
  | Removed string
  | SkippingDeletion string string
  | CouldNotRemove exn

datatype sdk_call =
    UploadFile string
  | GetFile string
  | DeleteFile string
  | GenerateContent remote_file string

text \<open>
  The outside's answers. A reply of the SDK is indexed by the number of SDK calls issued
  before it, a clock reading by the number of readings taken before it; \<open>Inl\<close> is the
  exception the call raises. \<open>NamedTemporaryFile\<close> answers with the path of the file it
  created; \<open>tmp_file_write\<close> and \<open>delete_file\<close>, which return nothing, answer with the
  exception they raise, if any.
\<close>

record env =
  NamedTemporaryFile :: "exn + string"
  tmp_file_write :: "exn option"
  upload_file :: "nat \<Rightarrow> exn + remote_file"
  get_file :: "nat \<Rightarrow> exn + remote_file"
  delete_file :: "nat \<Rightarrow> exn option"
  generate_content :: "nat \<Rightarrow> exn + response"
  time :: "nat \<Rightarrow> real"

text \<open>
  What the script has done so far: the local files that exist, the messages on the page
  (oldest first), the SDK calls issued (oldest first), the number of clock readings taken
  and the seconds spent in \<open>time.sleep\<close>.
\<close>

record world =
  fs :: "string set"
  ui :: "(level \<times> message) list"
  calls :: "sdk_call list"
  clock_reads :: nat
  slept :: int

definition st :: "level \<Rightarrow> message \<Rightarrow> world \<Rightarrow> world" where
  "st l m w = w\<lparr>ui := ui w @ [(l, m)]\<rparr>"

definition os_path_exists :: "string \<Rightarrow> world \<Rightarrow> bool" where
  "os_path_exists p w = (p \<in> fs w)"

definition os_unlink :: "string \<Rightarrow> world \<Rightarrow> exn + world" where
  "os_unlink p w =
     (if p \<in> fs w then Inr (w\<lparr>fs := fs w - {p}\<rparr>)
      else Inl (Exception ''FileNotFoundError''))"

definition time_time :: "env \<Rightarrow> world \<Rightarrow> real \<times> world" where
  "time_time E w = (time E (clock_reads w), w\<lparr>clock_reads := Suc (clock_reads w)\<rparr>)"

definition time_sleep :: "int \<Rightarrow> world \<Rightarrow> world" where
  "time_sleep d w = w\<lparr>slept := slept w + d\<rparr>"

definition genai_upload_file :: "env \<Rightarrow> string \<Rightarrow> world \<Rightarrow> (exn + remote_file) \<times> world" where
  "genai_upload_file E path w =
     (upload_file E (length (calls w)), w\<lparr>calls := calls w @ [UploadFile path]\<rparr>)"

definition genai_get_file :: "env \<Rightarrow> string \<Rightarrow> world \<Rightarrow> (exn + remote_file) \<times> world" where
  "genai_get_file E n w =
     (get_file E (length (calls w)), w\<lparr>calls := calls w @ [GetFile n]\<rparr>)"

definition genai_delete_file :: "env \<Rightarrow> string \<Rightarrow> world \<Rightarrow> exn option \<times> world" where
  "genai_delete_file E n w =
     (delete_file E (length (calls w)), w\<lparr>calls := calls w @ [DeleteFile n]\<rparr>)"

definition model_generate_content ::
  "env \<Rightarrow> remote_file \<Rightarrow> string \<Rightarrow> world \<Rightarrow> (exn + response) \<times> world" where
  "model_generate_content E v p w =
     (generate_content E (length (calls w)), w\<lparr>calls := calls w @ [GenerateContent v p]\<rparr>)"

section \<open>upload_video_to_gemini\<close>

text \<open>
  The \<open>except Exception\<close> clause (lines 78 to 82): report, unlink the temporary file if
  \<open>tmp_file_path\<close> is bound (\<open>Some\<close>) and the file exists, return \<open>None\<close>. Under the test
  of line 80 the file exists, so this \<open>os.unlink\<close> removes it and does not raise.
\<close>

definition on_exception :: "exn \<Rightarrow> string option \<Rightarrow> world \<Rightarrow> remote_file option \<times> world" where
  "on_exception e tmp_file_path w =
     (let w1 = st ERROR (UploadOrProcessingError e) w in
      case tmp_file_path of
        None \<Rightarrow> (None, w1)
      | Some p \<Rightarrow>
          if os_path_exists p w1 then (None, w1\<lparr>fs := fs w1 - {p}\<rparr>) else (None, w1))"

text \<open>Lines 62 to 64: the timeout exit of the loop.\<close>

definition timed_out :: "int \<Rightarrow> string \<Rightarrow> world \<Rightarrow> remote_file option \<times> world" where
  "timed_out max_polling_time tmp_file_path w =
     (let w1 = st ERROR (TimedOut max_polling_time) w in
      case os_unlink tmp_file_path w1 of
        Inl e \<Rightarrow> on_exception e (Some tmp_file_path) w1
      | Inr w2 \<Rightarrow> (None, w2))"

text \<open>Lines 69 to 76: after the loop.\<close>

definition after_polling ::
  "string \<Rightarrow> uploaded_file \<Rightarrow> remote_file \<Rightarrow> world \<Rightarrow> remote_file option \<times> world" where
  "after_polling tmp_file_path uploaded video_file w =
     (if state_name video_file = ''FAILED'' then
        (let w1 = st ERROR ProcessingFailed w in
         case os_unlink tmp_file_path w1 of
           Inl e \<Rightarrow> on_exception e (Some tmp_file_path) w1
         | Inr w2 \<Rightarrow> (None, w2))
      else
        (case os_unlink tmp_file_path w of
           Inl e \<Rightarrow> on_exception e (Some tmp_file_path) w
         | Inr w1 \<Rightarrow> (Some video_file, st SUCCESS (ReadyForAnalysis (upload_name uploaded)) w1)))"

text \<open>
  Lines 60 to 67, the \<open>while\<close> loop, followed by the code after it. Nothing bounds the
  number of iterations but the clock, so the loop is a partial function: \<open>None\<close> is a run
  that never leaves the loop. What does not change in the loop is passed in two pairs:
  \<open>params\<close> is \<open>(polling_interval, max_polling_time)\<close> and \<open>tmp\<close> is
  \<open>(tmp_file_path, uploaded_file)\<close>.
\<close>

partial_function (option) while_processing ::
  "env \<Rightarrow> int \<times> int \<Rightarrow> string \<times> uploaded_file \<Rightarrow> real \<Rightarrow> remote_file \<Rightarrow> world
     \<Rightarrow> (remote_file option \<times> world) option" where
  "while_processing E params tmp start_time video_file w =
     (if state_name video_file = ''PROCESSING'' then
        (case time_time E w of (t, w1) \<Rightarrow>
           if t - start_time > real_of_int (snd params) then
             Some (timed_out (snd params) (fst tmp) w1)
           else
             (case genai_get_file E (name video_file) (time_sleep (fst params) w1) of
                (Inl e, w2) \<Rightarrow> Some (on_exception e (Some (fst tmp)) w2)
              | (Inr video_file', w2) \<Rightarrow>
                  while_processing E params tmp start_time video_file'
                    (st INFO (VideoState (state_name video_file') (fst params)) w2)))
      else Some (after_polling (fst tmp) (snd tmp) video_file w))"

declare while_processing.simps [code]

text \<open>
  The whole function, with the two constants of lines 56 and 57 as parameters
  \<open>polling_interval\<close> and \<open>max_polling_time\<close>.
\<close>

definition upload_video_with ::
  "env \<Rightarrow> int \<Rightarrow> int \<Rightarrow> uploaded_file option \<Rightarrow> world \<Rightarrow> (remote_file option \<times> world) option" where
  "upload_video_with E polling_interval max_polling_time uploaded w =
     (case uploaded of
        None \<Rightarrow> Some (None, w)
      | Some uploaded_file \<Rightarrow>
          (case NamedTemporaryFile E of
             Inl e \<Rightarrow> Some (on_exception e None w)
           | Inr tmp_file_path \<Rightarrow>
               (let w1 = w\<lparr>fs := insert tmp_file_path (fs w)\<rparr> in
                case tmp_file_write E of
                  Some e \<Rightarrow> Some (on_exception e None w1)
                | None \<Rightarrow>
                    (case genai_upload_file E tmp_file_path
                            (st INFO (Uploading (upload_name uploaded_file)) w1) of
                       (Inl e, w2) \<Rightarrow> Some (on_exception e (Some tmp_file_path) w2)
                     | (Inr video_file, w2) \<Rightarrow>
                         (case time_time E
                                 (st INFO (Uploaded (upload_name uploaded_file) (uri video_file)) w2) of
                            (start_time, w3) \<Rightarrow>
                              while_processing E (polling_interval, max_polling_time)
                                (tmp_file_path, uploaded_file) start_time video_file w3)))))"

definition upload_video_to_gemini ::
  "env \<Rightarrow> uploaded_file option \<Rightarrow> world \<Rightarrow> (remote_file option \<times> world) option" where
  "upload_video_to_gemini E = upload_video_with E 5 300"

section \<open>get_gemini_response\<close>

text \<open>
  The three fixed strings the function returns in place of the model's text (lines 88,
  123 and 141). The second starts with the warning sign, U+26A0 U+FE0F, here as its
  UTF-8 bytes.
\<close>

definition PLEASE_UPLOAD :: string where
  "PLEASE_UPLOAD = ''Please upload a video first.''"

definition NO_RESPONSE :: string where
  "NO_RESPONSE =
     [CHR 0xE2, CHR 0x9A, CHR 0xA0, CHR 0xEF, CHR 0xB8, CHR 0x8F] @
     '' The model could not generate a response. This might be due to safety filters or limitations. Please try a different question or video.''"

definition ENCOUNTERED_ERROR :: string where
  "ENCOUNTERED_ERROR =
     ''Sorry, I encountered an error trying to analyze the video with your question.''"

text \<open>
  Lines 85 to 141. \<open>not video_file_obj\<close> holds for \<open>None\<close> only: an SDK file object is
  truthy whatever its state. The fixed system prompt and the request timeout of 600
  seconds are the same in every call and are left out of the recorded call. Everything
  from \<open>st.info\<close> to \<open>return response.text\<close> is inside the \<open>try\<close>, so an exception of
  \<open>generate_content\<close> or of the \<open>.text\<close> accessor reaches the \<open>except\<close> clause.
\<close>

definition get_gemini_response ::
  "env \<Rightarrow> remote_file option \<Rightarrow> string \<Rightarrow> world \<Rightarrow> string \<times> world" where
  "get_gemini_response E video_file_obj user_prompt w =
     (case video_file_obj of
        None \<Rightarrow> (PLEASE_UPLOAD, w)
      | Some v \<Rightarrow>
          (case model_generate_content E v user_prompt (st INFO Thinking w) of
             (Inl e, w1) \<Rightarrow> (ENCOUNTERED_ERROR, st ERROR (GenerationError e) w1)
           | (Inr response, w1) \<Rightarrow>
               if candidates response = [] then (NO_RESPONSE, w1)
               else
                 (case response_text response of
                    Inl e \<Rightarrow> (ENCOUNTERED_ERROR, st ERROR (GenerationError e) w1)
                  | Inr t \<Rightarrow> (t, w1))))"

section \<open>The clear button\<close>

text \<open>The four session variables of lines 147 to 154.\<close>

record session_state =
  messages :: "(string \<times> string) list"
  uploaded_video_file_obj :: "remote_file option"
  uploaded_file_name :: "string option"
  upload_key :: int

text \<open>
  Lines 229 to 239: the attempt to delete the file on the server, with its
  \<open>except Exception\<close> clause, which turns any exception of \<open>get_file\<close> or \<open>delete_file\<close>
  into a warning on the page.
\<close>

definition remove_from_server :: "env \<Rightarrow> remote_file option \<Rightarrow> world \<Rightarrow> world" where
  "remove_from_server E obj w =
     (case obj of
        None \<Rightarrow> w
      | Some v \<Rightarrow>
          (case genai_get_file E (name v) w of
             (Inl del_e, w1) \<Rightarrow> st WARNING (CouldNotRemove del_e) w1
           | (Inr file_to_delete, w1) \<Rightarrow>
               if state_name file_to_delete = ''ACTIVE'' then
                 (case genai_delete_file E (name v) w1 of
                    (Some del_e, w2) \<Rightarrow> st WARNING (CouldNotRemove del_e) w2
                  | (None, w2) \<Rightarrow> st SUCCESS (Removed (name v)) w2)
               else st WARNING (SkippingDeletion (name v) (state_name file_to_delete)) w1))"

text \<open>
  Lines 225 to 242, the body of \<open>if st.sidebar.button("Clear Chat & Remove Video")\<close>, up
  to \<open>st.rerun()\<close>, which ends the run of the script.
\<close>

definition clear_chat_and_remove_video ::
  "env \<Rightarrow> session_state \<times> world \<Rightarrow> session_state \<times> world" where
  "clear_chat_and_remove_video E sw =
     (case sw of (s, w) \<Rightarrow>
        (let s1 = s\<lparr>messages := [], uploaded_file_name := None\<rparr>;
             w1 = remove_from_server E (uploaded_video_file_obj s1) w
         in (s1\<lparr>uploaded_video_file_obj := None, upload_key := upload_key s1 + 1\<rparr>, w1)))"

section \<open>Reading a run, and sample runs\<close>

text \<open>The status polls among the SDK calls of a run.\<close>

fun is_get :: "sdk_call \<Rightarrow> bool" where
  "is_get (GetFile n) = True"
| "is_get c = False"

text \<open>
  A description of the outside used to single out runs: seen from the world \<open>w\<close> in which
  \<open>upload_video_to_gemini\<close> is called, each of the first \<open>k\<close> iterations of the loop finds
  the time limit \<open>max_polling_time\<close> not yet exceeded, and its poll is answered with a file
  in state \<open>PROCESSING\<close>. (The upload is the SDK call number \<open>length (calls w)\<close> and the
  reading of \<open>start_time\<close> the clock reading number \<open>clock_reads w\<close>; the polls and the
  readings of the loop follow them.)
\<close>

definition processing_for :: "env \<Rightarrow> world \<Rightarrow> int \<Rightarrow> nat \<Rightarrow> bool" where
  "processing_for E w max_polling_time k =
     list_all
       (\<lambda>i. time E (clock_reads w + 1 + i) - time E (clock_reads w) \<le> real_of_int max_polling_time
          \<and> (case get_file E (length (calls w) + 1 + i) of
                Inl e \<Rightarrow> False
              | Inr v \<Rightarrow> state_name v = ''PROCESSING''))
       [0..<k]"

text \<open>
  How a call of \<open>upload_video_to_gemini\<close> ended, read off its result and the page: with
  \<open>None\<close> and an error as the last message, or with a file and the success message.
\<close>

definition reported :: "remote_file option \<times> world \<Rightarrow> bool" where
  "reported rw =
     (ui (snd rw) \<noteq> [] \<and>
      (case fst rw of
         None \<Rightarrow> fst (last (ui (snd rw))) = ERROR
       | Some v \<Rightarrow> fst (last (ui (snd rw))) = SUCCESS))"

text \<open>
  Concrete inputs: a temporary path, an uploaded video, a world in which nothing has
  happened yet, and a backend on which every call succeeds, which reports the state
  \<open>states k\<close> in its reply to the SDK call number \<open>k\<close> and whose clock reads \<open>clock k\<close> at
  the reading number \<open>k\<close>.
\<close>

definition tmp0 :: string where "tmp0 = ''/tmp/tmpq3x9.mp4''"
definition video0 :: uploaded_file where
  "video0 = \<lparr>upload_name = ''squat.mp4'', getvalue = ''RIFF''\<rparr>"
definition w0 :: world where
  "w0 = \<lparr>fs = {}, ui = [], calls = [], clock_reads = 0, slept = 0\<rparr>"
definition file_in :: "string \<Rightarrow> remote_file" where
  "file_in s = \<lparr>name = ''files/k7'', uri = ''https://example.org/files/k7'', state_name = s\<rparr>"
definition backend :: "(nat \<Rightarrow> string) \<Rightarrow> (nat \<Rightarrow> real) \<Rightarrow> env" where
  "backend states clock =
     \<lparr>NamedTemporaryFile = Inr tmp0, tmp_file_write = None,
      upload_file = (\<lambda>k. Inr (file_in (states k))),
      get_file = (\<lambda>k. Inr (file_in (states k))),
      delete_file = (\<lambda>k. None),
      generate_content = (\<lambda>k. Inr \<lparr>candidates = [''c''], response_text = Inr ''Keep your back straight.''\<rparr>),
      time = clock\<rparr>"

text \<open>A session that holds the handle of an uploaded file and one exchange.\<close>

definition session0 :: session_state where
  "session0 =
     \<lparr>messages = [(''user'', ''Is my squat deep enough?''),
                  (''assistant'', ''Keep your back straight.'')],
      uploaded_video_file_obj = Some (file_in ''ACTIVE''),
      uploaded_file_name = Some ''squat.mp4'',
      upload_key = 1\<rparr>"

section \<open>Facts about the pieces of upload_video_to_gemini\<close>

lemma upload_None: "upload_video_to_gemini E None w = Some (None, w)"
  by (simp add: upload_video_to_gemini_def upload_video_with_def)

lemma processing_for_iff:
  "processing_for E w mx k \<longleftrightarrow>
     (\<forall>i<k. time E (clock_reads w + 1 + i) - time E (clock_reads w) \<le> real_of_int mx
        \<and> (\<exists>v. get_file E (length (calls w) + 1 + i) = Inr v \<and> state_name v = ''PROCESSING''))"
proof -
  have "(case x of Inl e \<Rightarrow> False | Inr v \<Rightarrow> state_name v = ''PROCESSING'') =
        (\<exists>v. x = Inr v \<and> state_name v = ''PROCESSING'')" for x :: "exn + remote_file"
    by (cases x) auto
  then show ?thesis
    by (auto simp: processing_for_def list_all_iff)
qed

lemma on_exception_None: "fst (on_exception e tmp w) = None"
  by (simp add: on_exception_def Let_def split: option.splits)

lemma on_exception_unlinks: "p \<notin> fs (snd (on_exception e (Some p) w))"
  by (simp add: on_exception_def Let_def os_path_exists_def st_def)

lemma on_exception_ui:
  "ui (snd (on_exception e tmp w)) = ui w @ [(ERROR, UploadOrProcessingError e)]"
  by (simp add: on_exception_def Let_def st_def split: option.splits)

lemma on_exception_calls: "calls (snd (on_exception e tmp w)) = calls w"
  by (simp add: on_exception_def Let_def st_def split: option.splits)

lemma on_exception_reported: "reported (on_exception e tmp w)"
  by (simp add: reported_def on_exception_None on_exception_ui)

lemma timed_out_None: "fst (timed_out mx p w) = None"
  by (simp add: timed_out_def Let_def os_unlink_def on_exception_None)

lemma timed_out_unlinks: "p \<notin> fs (snd (timed_out mx p w))"
  by (simp add: timed_out_def Let_def os_unlink_def on_exception_unlinks)

lemma timed_out_calls: "calls (snd (timed_out mx p w)) = calls w"
  by (simp add: timed_out_def Let_def os_unlink_def on_exception_calls st_def)

lemma timed_out_reported: "reported (timed_out mx p w)"
  by (simp add: timed_out_def Let_def os_unlink_def on_exception_reported)
     (simp add: reported_def st_def)

lemma after_polling_unlinks: "p \<notin> fs (snd (after_polling p f v w))"
  by (simp add: after_polling_def Let_def os_unlink_def on_exception_unlinks st_def)

lemma after_polling_calls: "calls (snd (after_polling p f v w)) = calls w"
  by (simp add: after_polling_def Let_def os_unlink_def on_exception_calls st_def)

lemma after_polling_reported: "reported (after_polling p f v w)"
  by (simp add: after_polling_def Let_def os_unlink_def on_exception_reported)
     (simp add: reported_def st_def)

lemma after_polling_state:
  "fst (after_polling p f v w) = Some v' \<Longrightarrow> v' = v \<and> state_name v \<noteq> ''FAILED''"
  by (auto simp: after_polling_def Let_def os_unlink_def on_exception_None split: if_splits)

lemma after_polling_failed:
  assumes "state_name v = ''FAILED''" and "p \<in> fs w"
  shows "after_polling p f v w =
         (None, w\<lparr>ui := ui w @ [(ERROR, ProcessingFailed)], fs := fs w - {p}\<rparr>)"
  using assms by (simp add: after_polling_def os_unlink_def st_def)

lemma after_polling_returns:
  assumes "state_name v \<noteq> ''FAILED''" and "p \<in> fs w"
  shows "after_polling p f v w =
         (Some v, w\<lparr>fs := fs w - {p},
                     ui := ui w @ [(SUCCESS, ReadyForAnalysis (upload_name f))]\<rparr>)"
  using assms by (simp add: after_polling_def os_unlink_def st_def)

section \<open>The polling loop, one iteration at a time\<close>

text \<open>
  One iteration in which the state is still \<open>PROCESSING\<close>, the time limit has not passed
  and the poll succeeds: the loop goes on with the polled file.
\<close>

lemma step_continue:
  assumes "state_name v = ''PROCESSING''"
    and "time E (clock_reads w) - start \<le> real_of_int mx"
    and "get_file E (length (calls w)) = Inr v'"
  shows "while_processing E (iv, mx) tmp start v w =
         while_processing E (iv, mx) tmp start v'
           (w\<lparr>clock_reads := Suc (clock_reads w), slept := slept w + iv,
              calls := calls w @ [GetFile (name v)],
              ui := ui w @ [(INFO, VideoState (state_name v') iv)]\<rparr>)"
  using assms
  by (subst while_processing.simps)
     (simp add: time_time_def time_sleep_def genai_get_file_def st_def)

text \<open>The three ways out of the loop.\<close>

lemma step_timeout:
  assumes "state_name v = ''PROCESSING''"
    and "real_of_int mx < time E (clock_reads w) - start"
    and "p \<in> fs w"
  shows "while_processing E (iv, mx) (p, f) start v w =
         Some (None, w\<lparr>clock_reads := Suc (clock_reads w),
                        ui := ui w @ [(ERROR, TimedOut mx)], fs := fs w - {p}\<rparr>)"
  using assms
  by (subst while_processing.simps)
     (simp add: time_time_def timed_out_def os_unlink_def st_def)

lemma step_exit:
  assumes "state_name v \<noteq> ''PROCESSING''"
  shows "while_processing E params tmp start v w = Some (after_polling (fst tmp) (snd tmp) v w)"
  using assms by (subst while_processing.simps) simp

lemma step_raise:
  assumes "state_name v = ''PROCESSING''"
    and "time E (clock_reads w) - start \<le> real_of_int mx"
    and "get_file E (length (calls w)) = Inl e"
    and "p \<in> fs w"
  shows "while_processing E (iv, mx) (p, f) start v w =
         Some (None, w\<lparr>clock_reads := Suc (clock_reads w), slept := slept w + iv,
                        calls := calls w @ [GetFile (name v)],
                        ui := ui w @ [(ERROR, UploadOrProcessingError e)], fs := fs w - {p}\<rparr>)"
  using assms
  by (subst while_processing.simps)
     (simp add: time_time_def time_sleep_def genai_get_file_def st_def on_exception_def
        os_path_exists_def)

text \<open>Any number of iterations that go on.\<close>

lemma benign_steps:
  assumes "state_name v = ''PROCESSING''"
    and "\<forall>i<k. time E (clock_reads w + i) - start \<le> real_of_int mx"
    and "\<forall>i<k. \<exists>v'. get_file E (length (calls w) + i) = Inr v' \<and> state_name v' = ''PROCESSING''"
  shows "\<exists>v' w'. while_processing E (iv, mx) tmp start v w =
                   while_processing E (iv, mx) tmp start v' w'
           \<and> state_name v' = ''PROCESSING''
           \<and> clock_reads w' = clock_reads w + k \<and> fs w' = fs w
           \<and> (\<exists>cs. calls w' = calls w @ cs \<and> length cs = k \<and> list_all is_get cs)"
  using assms
proof (induction k)
  case 0
  then show ?case by (intro exI[of _ v] exI[of _ w]) simp
next
  case (Suc k)
  then obtain v1 w1 cs where eq: "while_processing E (iv, mx) tmp start v w =
                   while_processing E (iv, mx) tmp start v1 w1"
    and v1: "state_name v1 = ''PROCESSING''"
    and w1: "clock_reads w1 = clock_reads w + k" "fs w1 = fs w"
    and cs: "calls w1 = calls w @ cs" "length cs = k" "list_all is_get cs"
    by force
  from Suc.prems(3) obtain v2 where v2: "get_file E (length (calls w) + k) = Inr v2"
     "state_name v2 = ''PROCESSING''" by auto
  have t: "time E (clock_reads w1) - start \<le> real_of_int mx"
    using Suc.prems(2) w1 by simp
  have g: "get_file E (length (calls w1)) = Inr v2" using v2 cs by simp
  note next_step = step_continue[OF v1 t g, of iv tmp]
  show ?case
    apply (rule exI[of _ v2])
    apply (rule exI)
    apply (rule conjI)
     apply (rule trans[OF eq next_step])
    using v2 w1 cs by simp
qed

section \<open>Runs of the whole function\<close>

lemma upload_staged:
  assumes "NamedTemporaryFile E = Inr p" and "tmp_file_write E = None"
    and "upload_file E (length (calls w)) = Inr v"
  shows "upload_video_with E iv mx (Some f) w =
         while_processing E (iv, mx) (p, f) (time E (clock_reads w)) v
           (w\<lparr>fs := insert p (fs w),
              calls := calls w @ [UploadFile p],
              ui := ui w @ [(INFO, Uploading (upload_name f)), (INFO, Uploaded (upload_name f) (uri v))],
              clock_reads := Suc (clock_reads w)\<rparr>)"
  using assms
  by (simp add: upload_video_with_def genai_upload_file_def st_def time_time_def)

lemma upload_raises:
  assumes "NamedTemporaryFile E = Inr p" and "tmp_file_write E = None"
    and "upload_file E (length (calls w)) = Inl e"
  shows "upload_video_with E iv mx (Some f) w =
         Some (None, w\<lparr>calls := calls w @ [UploadFile p],
                        ui := ui w @ [(INFO, Uploading (upload_name f)),
                                      (ERROR, UploadOrProcessingError e)],
                        fs := fs w - {p}\<rparr>)"
  using assms
  by (simp add: upload_video_with_def genai_upload_file_def st_def on_exception_def
      os_path_exists_def)

text \<open>
  The upload is accepted in state \<open>PROCESSING\<close> and \<open>k\<close> iterations go on: the run has
  reached the head of the loop for the time number \<open>k + 1\<close>, having issued the upload and
  \<open>k\<close> polls, with the temporary file still there.
\<close>

lemma upload_polls:
  assumes "NamedTemporaryFile E = Inr p" and "tmp_file_write E = None"
    and "upload_file E (length (calls w)) = Inr v" and "state_name v = ''PROCESSING''"
    and "processing_for E w mx k"
  shows "\<exists>v' w1 cs. upload_video_with E iv mx (Some f) w =
                      while_processing E (iv, mx) (p, f) (time E (clock_reads w)) v' w1
           \<and> state_name v' = ''PROCESSING''
           \<and> clock_reads w1 = clock_reads w + 1 + k \<and> p \<in> fs w1
           \<and> calls w1 = calls w @ UploadFile p # cs \<and> length cs = k \<and> list_all is_get cs"
proof -
  let ?w0 = "w\<lparr>fs := insert p (fs w),
              calls := calls w @ [UploadFile p],
              ui := ui w @ [(INFO, Uploading (upload_name f)), (INFO, Uploaded (upload_name f) (uri v))],
              clock_reads := Suc (clock_reads w)\<rparr>"
  let ?start = "time E (clock_reads w)"
  have a: "\<forall>i<k. time E (clock_reads ?w0 + i) - ?start \<le> real_of_int mx"
    using assms(5) by (simp add: processing_for_iff)
  have b: "\<forall>i<k. \<exists>v'. get_file E (length (calls ?w0) + i) = Inr v' \<and> state_name v' = ''PROCESSING''"
    using assms(5) by (simp add: processing_for_iff)
  from benign_steps[OF assms(4) a b, of iv "(p, f)"]
  obtain v1 w1 cs where eq: "while_processing E (iv, mx) (p, f) ?start v ?w0 =
                   while_processing E (iv, mx) (p, f) ?start v1 w1"
    and v1: "state_name v1 = ''PROCESSING''"
    and w1: "clock_reads w1 = clock_reads ?w0 + k" "fs w1 = fs ?w0"
    and cs: "calls w1 = calls ?w0 @ cs" "length cs = k" "list_all is_get cs"
    by blast
  show ?thesis
    unfolding upload_staged[OF assms(1-3)] eq
    using v1 w1 cs by auto
qed

lemma polls_then_timeout:
  assumes "NamedTemporaryFile E = Inr p" and "tmp_file_write E = None"
    and "upload_file E (length (calls w)) = Inr v" and "state_name v = ''PROCESSING''"
    and "processing_for E w mx k"
    and "real_of_int mx < time E (clock_reads w + 1 + k) - time E (clock_reads w)"
  shows "\<exists>w' cs. upload_video_with E iv mx (Some f) w = Some (None, w')
           \<and> last (ui w') = (ERROR, TimedOut mx)
           \<and> calls w' = calls w @ UploadFile p # cs \<and> length cs = k \<and> list_all is_get cs
           \<and> p \<notin> fs w'"
proof -
  from upload_polls[OF assms(1-5), of iv f]
  obtain v1 w1 cs where eq: "upload_video_with E iv mx (Some f) w =
                      while_processing E (iv, mx) (p, f) (time E (clock_reads w)) v1 w1"
    and v1: "state_name v1 = ''PROCESSING''"
    and w1: "clock_reads w1 = clock_reads w + 1 + k" "p \<in> fs w1"
    and cs: "calls w1 = calls w @ UploadFile p # cs" "length cs = k" "list_all is_get cs"
    by blast
  have t: "real_of_int mx < time E (clock_reads w1) - time E (clock_reads w)"
    using assms(6) w1 by simp
  show ?thesis
    unfolding eq step_timeout[OF v1 t w1(2)] using cs by simp
qed

lemma polls_then_raise:
  assumes "NamedTemporaryFile E = Inr p" and "tmp_file_write E = None"
    and "upload_file E (length (calls w)) = Inr v" and "state_name v = ''PROCESSING''"
    and "processing_for E w mx k"
    and "time E (clock_reads w + 1 + k) - time E (clock_reads w) \<le> real_of_int mx"
    and "get_file E (length (calls w) + 1 + k) = Inl e"
  shows "\<exists>w' cs. upload_video_with E iv mx (Some f) w = Some (None, w')
           \<and> last (ui w') = (ERROR, UploadOrProcessingError e)
           \<and> calls w' = calls w @ UploadFile p # cs \<and> length cs = Suc k \<and> list_all is_get cs
           \<and> p \<notin> fs w'"
proof -
  from upload_polls[OF assms(1-5), of iv f]
  obtain v1 w1 cs where eq: "upload_video_with E iv mx (Some f) w =
                      while_processing E (iv, mx) (p, f) (time E (clock_reads w)) v1 w1"
    and v1: "state_name v1 = ''PROCESSING''"
    and w1: "clock_reads w1 = clock_reads w + 1 + k" "p \<in> fs w1"
    and cs: "calls w1 = calls w @ UploadFile p # cs" "length cs = k" "list_all is_get cs"
    by blast
  have t: "time E (clock_reads w1) - time E (clock_reads w) \<le> real_of_int mx"
    using assms(6) w1 by simp
  have g: "get_file E (length (calls w1)) = Inl e"
    using assms(7) cs by simp
  show ?thesis
    unfolding eq step_raise[OF v1 t g w1(2)] using cs by simp
qed

text \<open>
  The poll number \<open>k + 1\<close> is answered with a file that is no longer \<open>PROCESSING\<close>: the
  loop is left and lines 69 to 76 decide.
\<close>

lemma polls_then_exit:
  assumes "NamedTemporaryFile E = Inr p" and "tmp_file_write E = None"
    and "upload_file E (length (calls w)) = Inr v" and "state_name v = ''PROCESSING''"
    and "processing_for E w mx k"
    and "time E (clock_reads w + 1 + k) - time E (clock_reads w) \<le> real_of_int mx"
    and "get_file E (length (calls w) + 1 + k) = Inr v2" and "state_name v2 \<noteq> ''PROCESSING''"
  shows "\<exists>w1 cs. upload_video_with E iv mx (Some f) w = Some (after_polling p f v2 w1)
           \<and> p \<in> fs w1
           \<and> calls w1 = calls w @ UploadFile p # cs \<and> length cs = Suc k \<and> list_all is_get cs"
proof -
  from upload_polls[OF assms(1-5), of iv f]
  obtain v1 w1 cs where eq: "upload_video_with E iv mx (Some f) w =
                      while_processing E (iv, mx) (p, f) (time E (clock_reads w)) v1 w1"
    and v1: "state_name v1 = ''PROCESSING''"
    and w1: "clock_reads w1 = clock_reads w + 1 + k" "p \<in> fs w1"
    and cs: "calls w1 = calls w @ UploadFile p # cs" "length cs = k" "list_all is_get cs"
    by blast
  have t: "time E (clock_reads w1) - time E (clock_reads w) \<le> real_of_int mx"
    using assms(6) w1 by simp
  have g: "get_file E (length (calls w1)) = Inr v2"
    using assms(7) cs by simp
  show ?thesis
    unfolding eq step_continue[OF v1 t g] step_exit[OF assms(8)]
    using cs w1 by auto
qed

lemma polls_then_failed:
  assumes "NamedTemporaryFile E = Inr p" and "tmp_file_write E = None"
    and "upload_file E (length (calls w)) = Inr v" and "state_name v = ''PROCESSING''"
    and "processing_for E w mx k"
    and "time E (clock_reads w + 1 + k) - time E (clock_reads w) \<le> real_of_int mx"
    and "get_file E (length (calls w) + 1 + k) = Inr vF" and "state_name vF = ''FAILED''"
  shows "\<exists>w' cs. upload_video_with E iv mx (Some f) w = Some (None, w')
           \<and> last (ui w') = (ERROR, ProcessingFailed)
           \<and> calls w' = calls w @ UploadFile p # cs \<and> length cs = Suc k \<and> list_all is_get cs
           \<and> p \<notin> fs w'"
proof -
  have "state_name vF \<noteq> ''PROCESSING''" using assms(8) by simp
  from polls_then_exit[OF assms(1-7) this, of iv f]
  obtain w1 cs where "upload_video_with E iv mx (Some f) w = Some (after_polling p f vF w1)"
    "p \<in> fs w1" "calls w1 = calls w @ UploadFile p # cs" "length cs = Suc k" "list_all is_get cs"
    by blast
  then show ?thesis
    by (simp add: after_polling_failed[OF assms(8)])
qed

lemma polls_then_returns:
  assumes "NamedTemporaryFile E = Inr p" and "tmp_file_write E = None"
    and "upload_file E (length (calls w)) = Inr v" and "state_name v = ''PROCESSING''"
    and "processing_for E w mx k"
    and "time E (clock_reads w + 1 + k) - time E (clock_reads w) \<le> real_of_int mx"
    and "get_file E (length (calls w) + 1 + k) = Inr v2"
    and "state_name v2 \<noteq> ''PROCESSING''" and "state_name v2 \<noteq> ''FAILED''"
  shows "\<exists>w' cs. upload_video_with E iv mx (Some f) w = Some (Some v2, w')
           \<and> last (ui w') = (SUCCESS, ReadyForAnalysis (upload_name f))
           \<and> calls w' = calls w @ UploadFile p # cs \<and> length cs = Suc k \<and> list_all is_get cs
           \<and> p \<notin> fs w'"
proof -
  from polls_then_exit[OF assms(1-8), of iv f]
  obtain w1 cs where "upload_video_with E iv mx (Some f) w = Some (after_polling p f v2 w1)"
    "p \<in> fs w1" "calls w1 = calls w @ UploadFile p # cs" "length cs = Suc k" "list_all is_get cs"
    by blast
  then show ?thesis
    by (simp add: after_polling_returns[OF assms(9)])
qed

section \<open>What holds of every run that returns\<close>

lemma while_processing_unlinks:
  "while_processing E params tmp start v w = Some rw \<Longrightarrow> fst tmp \<notin> fs (snd rw)"
proof (induction rule: while_processing.raw_induct[rotated 1, consumes 1])
  case (1 loop E params tmp start_time video_file w rw)
  then show ?case
    by (auto simp: time_time_def genai_get_file_def timed_out_unlinks after_polling_unlinks
        on_exception_unlinks split: if_splits sum.splits prod.splits)
qed

lemma while_processing_reported:
  "while_processing E params tmp start v w = Some rw \<Longrightarrow> reported rw"
proof (induction rule: while_processing.raw_induct[rotated 1, consumes 1])
  case (1 loop E params tmp start_time video_file w rw)
  then show ?case
    by (auto simp: time_time_def genai_get_file_def timed_out_reported after_polling_reported
        on_exception_reported split: if_splits sum.splits prod.splits)
qed

lemma while_processing_state:
  "while_processing E params tmp start v w = Some rw \<Longrightarrow> fst rw = Some v' \<Longrightarrow>
     state_name v' \<noteq> ''PROCESSING'' \<and> state_name v' \<noteq> ''FAILED''"
proof (induction arbitrary: v' rule: while_processing.raw_induct[rotated 1, consumes 1])
  case (1 loop E params tmp start_time video_file w rw)
  then show ?case
    by (auto simp: time_time_def genai_get_file_def timed_out_None on_exception_None
        dest: after_polling_state split: if_splits sum.splits prod.splits)
qed

lemma upload_unlinks:
  assumes "NamedTemporaryFile E = Inr p" and "tmp_file_write E = None"
    and "upload_video_with E iv mx (Some f) w = Some rw"
  shows "p \<notin> fs (snd rw)"
proof (cases "upload_file E (length (calls w))")
  case (Inl e)
  from assms(3) show ?thesis
    unfolding upload_raises[OF assms(1,2) Inl] by auto
next
  case (Inr v)
  from assms(3) show ?thesis
    unfolding upload_staged[OF assms(1,2) Inr] by (auto dest: while_processing_unlinks)
qed

lemma upload_reported:
  assumes "upload_video_with E iv mx (Some f) w = Some rw"
  shows "reported rw"
  using assms
  by (auto simp: upload_video_with_def Let_def genai_upload_file_def time_time_def
      on_exception_reported dest: while_processing_reported
      split: sum.splits option.splits prod.splits)

lemma upload_state:
  assumes "upload_video_with E iv mx up w = Some (Some v', w')"
  shows "state_name v' \<noteq> ''PROCESSING'' \<and> state_name v' \<noteq> ''FAILED''"
  using assms
  by (auto simp: upload_video_with_def Let_def genai_upload_file_def time_time_def
      on_exception_def dest: while_processing_state
      split: sum.splits option.splits prod.splits if_splits)

section \<open>The loop ends\<close>

text \<open>
  The loop has no bound of its own: it ends because the clock moves. If \<open>polling_interval\<close>
  is positive and every reading of the clock at the head of an iteration is at least
  \<open>polling_interval\<close> later than the reading before it (a \<open>time.sleep(polling_interval)\<close> lies
  between them), the function returns.
\<close>

lemma while_processing_returns:
  assumes "0 < iv"
    and "\<forall>j\<ge>clock_reads w. time E j + real_of_int iv \<le> time E (Suc j)"
  shows "\<exists>rw. while_processing E (iv, mx) tmp start v w = Some rw"
proof -
  have within: "\<exists>rw. while_processing E (iv, mx) tmp start v w = Some rw"
    if "\<forall>j\<ge>clock_reads w. time E j + real_of_int iv \<le> time E (Suc j)"
      and "real_of_int mx < time E (clock_reads w) - start + real n * real_of_int iv"
    for n v w
    using that
  proof (induction n arbitrary: v w)
    case 0
    then show ?case
      by (subst while_processing.simps) (simp add: time_time_def)
  next
    case (Suc n)
    show ?case
    proof (cases "state_name v = ''PROCESSING'' \<and> time E (clock_reads w) - start \<le> real_of_int mx")
      case False
      then show ?thesis
        by (subst while_processing.simps) (auto simp: time_time_def)
    next
      case True
      show ?thesis
      proof (cases "get_file E (length (calls w))")
        case (Inl e)
        with True show ?thesis
          by (subst while_processing.simps)
             (simp add: time_time_def time_sleep_def genai_get_file_def)
      next
        case (Inr v')
        let ?w' = "w\<lparr>clock_reads := Suc (clock_reads w), slept := slept w + iv,
              calls := calls w @ [GetFile (name v)],
              ui := ui w @ [(INFO, VideoState (state_name v') iv)]\<rparr>"
        have a: "\<forall>j\<ge>clock_reads ?w'. time E j + real_of_int iv \<le> time E (Suc j)"
          using Suc.prems(1) by simp
        have "time E (clock_reads w) + real_of_int iv \<le> time E (Suc (clock_reads w))"
          using Suc.prems(1) by simp
        with Suc.prems(2)
        have b: "real_of_int mx < time E (clock_reads ?w') - start + real n * real_of_int iv"
          by (simp add: algebra_simps)
        from Suc.IH[OF a b] show ?thesis
          using step_continue[of v E w start mx v' iv tmp] True Inr by simp
      qed
    qed
  qed
  from assms(1) obtain n where
    "real_of_int mx - (time E (clock_reads w) - start) < real n * real_of_int iv"
    using reals_Archimedean3[of "real_of_int iv"] by auto
  then have "real_of_int mx < time E (clock_reads w) - start + real n * real_of_int iv"
    by simp
  with assms(2) show ?thesis by (rule within)
qed

lemma upload_returns:
  assumes "0 < iv"
    and "\<forall>j>clock_reads w. time E j + real_of_int iv \<le> time E (Suc j)"
  shows "\<exists>rw. upload_video_with E iv mx up w = Some rw"
proof -
  have "\<exists>rw. while_processing E (iv, mx) tmp start v
          (w'\<lparr>clock_reads := Suc (clock_reads w)\<rparr>) = Some rw" for tmp start v w'
    by (rule while_processing_returns[OF assms(1)]) (use assms(2) in simp)
  then show ?thesis
    by (auto simp: upload_video_with_def Let_def genai_upload_file_def time_time_def st_def
        split: sum.splits option.splits prod.splits)
qed

lemma two_polls:
  assumes "NamedTemporaryFile E = Inr p" and "tmp_file_write E = None"
    and "upload_file E (length (calls w)) = Inr v" and "state_name v = ''PROCESSING''"
    and "get_file E (length (calls w) + 1) = Inr v1" and "state_name v1 = ''PROCESSING''"
    and "get_file E (length (calls w) + 2) = Inr v2" and "state_name v2 = ''ACTIVE''"
    and "time E (clock_reads w + 1) - time E (clock_reads w) \<le> real_of_int mx"
    and "time E (clock_reads w + 2) - time E (clock_reads w) \<le> real_of_int mx"
  shows "\<exists>w'. upload_video_with E iv mx (Some f) w = Some (Some v2, w')
           \<and> calls w' = calls w @ [UploadFile p, GetFile (name v), GetFile (name v1)]
           \<and> last (ui w') = (SUCCESS, ReadyForAnalysis (upload_name f))"
proof -
  have nP: "state_name v2 \<noteq> ''PROCESSING''" and nF: "state_name v2 \<noteq> ''FAILED''"
    using assms(8) by simp_all
  show ?thesis
    unfolding upload_staged[OF assms(1-3)]
    apply (subst step_continue[OF assms(4), where v' = v1])
    using assms apply simp
    using assms apply simp
    apply (subst step_continue[OF assms(6), where v' = v2])
    using assms apply simp
    using assms apply simp
    apply (subst step_exit[OF nP])
    apply (simp add: after_polling_returns[OF nF])
    done
qed

lemma failed_write_keeps_file:
  assumes "NamedTemporaryFile E = Inr p" and "tmp_file_write E = Some e"
  shows "upload_video_to_gemini E (Some f) w =
           Some (None, w\<lparr>fs := insert p (fs w),
                          ui := ui w @ [(ERROR, UploadOrProcessingError e)]\<rparr>)"
  using assms
  by (simp add: upload_video_to_gemini_def upload_video_with_def on_exception_def st_def)



section \<open>Facts about get_gemini_response and the clear button\<close>

lemma query_raises:
  assumes "generate_content E (length (calls w)) = Inl e"
  shows "get_gemini_response E (Some v) q w =
           (ENCOUNTERED_ERROR,
            w\<lparr>calls := calls w @ [GenerateContent v q],
              ui := ui w @ [(INFO, Thinking), (ERROR, GenerationError e)]\<rparr>)"
  using assms by (simp add: get_gemini_response_def model_generate_content_def st_def)

lemma query_text_raises:
  assumes "generate_content E (length (calls w)) = Inr resp" and "candidates resp \<noteq> []"
    and "response_text resp = Inl e"
  shows "get_gemini_response E (Some v) q w =
           (ENCOUNTERED_ERROR,
            w\<lparr>calls := calls w @ [GenerateContent v q],
              ui := ui w @ [(INFO, Thinking), (ERROR, GenerationError e)]\<rparr>)"
  using assms by (simp add: get_gemini_response_def model_generate_content_def st_def)

lemma clear_without_handle:
  assumes "uploaded_video_file_obj s = None"
  shows "clear_chat_and_remove_video E (s, w) =
           (s\<lparr>messages := [], uploaded_file_name := None, uploaded_video_file_obj := None,
              upload_key := upload_key s + 1\<rparr>, w)"
  using assms by (simp add: clear_chat_and_remove_video_def remove_from_server_def)

lemma clear_clears: "uploaded_video_file_obj (fst (clear_chat_and_remove_video E (s, w))) = None"
  by (simp add: clear_chat_and_remove_video_def)

lemma clear_get_raises:
  assumes "uploaded_video_file_obj s = Some v" and "get_file E (length (calls w)) = Inl e"
  shows "clear_chat_and_remove_video E (s, w) =
           (s\<lparr>messages := [], uploaded_file_name := None, uploaded_video_file_obj := None,
              upload_key := upload_key s + 1\<rparr>,
            w\<lparr>calls := calls w @ [GetFile (name v)],
              ui := ui w @ [(WARNING, CouldNotRemove e)]\<rparr>)"
  using assms
  by (simp add: clear_chat_and_remove_video_def remove_from_server_def genai_get_file_def st_def)

lemma clear_skips:
  assumes "uploaded_video_file_obj s = Some v" and "get_file E (length (calls w)) = Inr ftd"
    and "state_name ftd \<noteq> ''ACTIVE''"
  shows "clear_chat_and_remove_video E (s, w) =
           (s\<lparr>messages := [], uploaded_file_name := None, uploaded_video_file_obj := None,
              upload_key := upload_key s + 1\<rparr>,
            w\<lparr>calls := calls w @ [GetFile (name v)],
              ui := ui w @ [(WARNING, SkippingDeletion (name v) (state_name ftd))]\<rparr>)"
  using assms
  by (simp add: clear_chat_and_remove_video_def remove_from_server_def genai_get_file_def st_def)

lemma clear_deletes:
  assumes "uploaded_video_file_obj s = Some v" and "get_file E (length (calls w)) = Inr ftd"
    and "state_name ftd = ''ACTIVE''"
  shows "clear_chat_and_remove_video E (s, w) =
           (s\<lparr>messages := [], uploaded_file_name := None, uploaded_video_file_obj := None,
              upload_key := upload_key s + 1\<rparr>,
            w\<lparr>calls := calls w @ [GetFile (name v), DeleteFile (name v)],
              ui := ui w @ [case delete_file E (Suc (length (calls w))) of
                              None \<Rightarrow> (SUCCESS, Removed (name v))
                            | Some e \<Rightarrow> (WARNING, CouldNotRemove e)]\<rparr>)"
  using assms
  by (simp add: clear_chat_and_remove_video_def remove_from_server_def genai_get_file_def
      genai_delete_file_def st_def split: option.splits)

section \<open>The claims\<close>

subsection \<open>C1: what upload_video_to_gemini returns\<close>

text \<open>
  C1 says that an asset is returned only when the state last reported for it is
  \<open>ACTIVE\<close>. The code tests for \<open>PROCESSING\<close> (line 60) and \<open>FAILED\<close> (line 69) and
  returns the file in every other case; the comment of line 54 and the message of line
  75 call that file ready. The theorem runs the function on a service that answers the
  upload with a file in state \<open>STATE_UNSPECIFIED\<close>: the file is returned at once, with the
  success message, and its state is not \<open>ACTIVE\<close>.
\<close>

theorem unspecified_state_is_returned:
  "upload_video_to_gemini (backend (\<lambda>k. ''STATE_UNSPECIFIED'') real) (Some video0) w0 =
     Some (Some (file_in ''STATE_UNSPECIFIED''),
           \<lparr>fs = {},
            ui = [(INFO, Uploading ''squat.mp4''),
                  (INFO, Uploaded ''squat.mp4'' ''https://example.org/files/k7''),
                  (SUCCESS, ReadyForAnalysis ''squat.mp4'')],
            calls = [UploadFile tmp0], clock_reads = 1, slept = 0\<rparr>)
   \<and> state_name (file_in ''STATE_UNSPECIFIED'') \<noteq> ''ACTIVE''"
proof -
  let ?E = "backend (\<lambda>k. ''STATE_UNSPECIFIED'') real"
  have a: "NamedTemporaryFile ?E = Inr tmp0" and b: "tmp_file_write ?E = None"
    and c: "upload_file ?E (length (calls w0)) = Inr (file_in ''STATE_UNSPECIFIED'')"
    by (simp_all add: backend_def)
  have d: "state_name (file_in ''STATE_UNSPECIFIED'') \<noteq> ''PROCESSING''"
    and e: "state_name (file_in ''STATE_UNSPECIFIED'') \<noteq> ''FAILED''"
    by (simp_all add: file_in_def)
  show ?thesis
    unfolding upload_video_to_gemini_def upload_staged[OF a b c] step_exit[OF d]
    apply (simp only: fst_conv snd_conv)
    apply (subst after_polling_returns[OF e])
     apply (simp add: w0_def)
    apply (simp add: w0_def video0_def file_in_def)
    done
qed

text \<open>
  What the two tests do give: a returned file is neither \<open>PROCESSING\<close> nor \<open>FAILED\<close>.
\<close>

lemma returned_file_state:
  assumes "upload_video_to_gemini E up w = Some (Some v, w')"
  shows "state_name v \<noteq> ''PROCESSING'' \<and> state_name v \<noteq> ''FAILED''"
  using assms unfolding upload_video_to_gemini_def by (rule upload_state)

subsection \<open>C2: get_gemini_response and the state of the asset\<close>

text \<open>
  C2 as stated fails: \<open>get_gemini_response\<close> never looks at the state of the file. On a
  file in state \<open>PROCESSING\<close> it calls the model and returns the model's text.
\<close>

theorem query_on_processing_asset_calls_model:
  "get_gemini_response (backend (\<lambda>k. ''PROCESSING'') real) (Some (file_in ''PROCESSING''))
       ''Is my squat deep enough?'' w0 =
     (''Keep your back straight.'',
      \<lparr>fs = {}, ui = [(INFO, Thinking)],
       calls = [GenerateContent (file_in ''PROCESSING'') ''Is my squat deep enough?''],
       clock_reads = 0, slept = 0\<rparr>)"
  by (simp add: get_gemini_response_def model_generate_content_def st_def backend_def w0_def)

text \<open>
  C2, amended. The only guard of \<open>get_gemini_response\<close> is the test of line 87 for a
  missing handle: without a handle it returns the fixed text of line 88 and issues no
  call; with a handle, whatever the state of the file, it issues the call to the model.
\<close>

theorem query_checks_presence_only:
  "get_gemini_response E None q w = (PLEASE_UPLOAD, w)
   \<and> calls (snd (get_gemini_response E (Some v) q w)) = calls w @ [GenerateContent v q]"
  by (simp add: get_gemini_response_def model_generate_content_def st_def
      split: sum.splits)

subsection \<open>C3: errors reach the caller\<close>

text \<open>
  C3 as stated fails for \<open>get_gemini_response\<close>, whose result is a text in every case.
  First, a reply without candidates (the spec's GenerationError) ends exactly as a
  generated answer does: the same value and the same page, with no error message, when
  the model's text has the wording of line 123. Second, no NotReadyError arises: on a
  file in state \<open>FAILED\<close> the function calls the model and returns its answer, with no
  error message.
\<close>

theorem no_output_ends_like_an_answer:
  "get_gemini_response
       ((backend (\<lambda>k. ''ACTIVE'') real)
          \<lparr>generate_content :=
             (\<lambda>k. Inr \<lparr>candidates = [], response_text = Inl (Exception ''ValueError'')\<rparr>)\<rparr>)
       (Some (file_in ''ACTIVE'')) ''Is my squat deep enough?'' w0 =
   get_gemini_response
       ((backend (\<lambda>k. ''ACTIVE'') real)
          \<lparr>generate_content :=
             (\<lambda>k. Inr \<lparr>candidates = [''c''], response_text = Inr NO_RESPONSE\<rparr>)\<rparr>)
       (Some (file_in ''ACTIVE'')) ''Is my squat deep enough?'' w0
   \<and> get_gemini_response (backend (\<lambda>k. ''FAILED'') real) (Some (file_in ''FAILED''))
       ''Is my squat deep enough?'' w0 =
     (''Keep your back straight.'',
      \<lparr>fs = {}, ui = [(INFO, Thinking)],
       calls = [GenerateContent (file_in ''FAILED'') ''Is my squat deep enough?''],
       clock_reads = 0, slept = 0\<rparr>)"
  by (simp add: get_gemini_response_def model_generate_content_def st_def backend_def w0_def)

text \<open>
  C3, amended. No exception leaves the three operations; each failure ends its
  operation with a value, and all but two of them with a message of their own.
  \<^item> \<open>upload_video_to_gemini\<close>, given a file: whenever it returns, its last message is an
    error exactly when it returns \<open>None\<close>, and the success message exactly when it returns a
    file. An exception of the upload, the timeout, an exception of a poll and a \<open>FAILED\<close>
    report each give \<open>None\<close> with their own error message (after any number \<open>k\<close> of polls
    that reported \<open>PROCESSING\<close> within the time limit of 300 seconds).
  \<^item> \<open>get_gemini_response\<close> returns a text in every case. An exception of the call to the
    model, or of reading its text, gives the fixed reply of line 141 together with an error
    message that carries the exception. A reply without candidates gives the fixed reply
    of line 123, and a missing handle the fixed reply of line 88, both without an error
    message. The three fixed replies differ from each other. There is no NotReadyError:
    given a handle, whatever the state of the file, the function calls the model and
    returns the text of a reply that has candidates.
  \<^item> The clear button: an exception of the status request or of the deletion request is
    shown as a warning, and the handler goes on to clear the handle and to advance
    \<open>upload_key\<close> as it does after a deletion.
\<close>

theorem errors_are_reported:
  "(upload_video_to_gemini E (Some f) w = Some (r, w') \<longrightarrow>
      ui w' \<noteq> [] \<and> (r = None) = (fst (last (ui w')) = ERROR)
      \<and> (r \<noteq> None) = (fst (last (ui w')) = SUCCESS))
   \<and> (NamedTemporaryFile E = Inr p \<and> tmp_file_write E = None
       \<and> upload_file E (length (calls w)) = Inl e \<longrightarrow>
      (\<exists>w1. upload_video_to_gemini E (Some f) w = Some (None, w1)
           \<and> last (ui w1) = (ERROR, UploadOrProcessingError e)))
   \<and> (NamedTemporaryFile E = Inr p \<and> tmp_file_write E = None
       \<and> upload_file E (length (calls w)) = Inr v \<and> state_name v = ''PROCESSING''
       \<and> processing_for E w 300 k
       \<and> 300 < time E (clock_reads w + 1 + k) - time E (clock_reads w) \<longrightarrow>
      (\<exists>w1. upload_video_to_gemini E (Some f) w = Some (None, w1)
           \<and> last (ui w1) = (ERROR, TimedOut 300)))
   \<and> (NamedTemporaryFile E = Inr p \<and> tmp_file_write E = None
       \<and> upload_file E (length (calls w)) = Inr v \<and> state_name v = ''PROCESSING''
       \<and> processing_for E w 300 k
       \<and> time E (clock_reads w + 1 + k) - time E (clock_reads w) \<le> 300
       \<and> get_file E (length (calls w) + 1 + k) = Inl e \<longrightarrow>
      (\<exists>w1. upload_video_to_gemini E (Some f) w = Some (None, w1)
           \<and> last (ui w1) = (ERROR, UploadOrProcessingError e)))
   \<and> (NamedTemporaryFile E = Inr p \<and> tmp_file_write E = None
       \<and> upload_file E (length (calls w)) = Inr v \<and> state_name v = ''PROCESSING''
       \<and> processing_for E w 300 k
       \<and> time E (clock_reads w + 1 + k) - time E (clock_reads w) \<le> 300
       \<and> get_file E (length (calls w) + 1 + k) = Inr vF \<and> state_name vF = ''FAILED'' \<longrightarrow>
      (\<exists>w1. upload_video_to_gemini E (Some f) w = Some (None, w1)
           \<and> last (ui w1) = (ERROR, ProcessingFailed)))
   \<and> (generate_content E (length (calls w)) = Inl e
       \<or> (\<exists>resp. generate_content E (length (calls w)) = Inr resp \<and> candidates resp \<noteq> []
                 \<and> response_text resp = Inl e) \<longrightarrow>
      get_gemini_response E (Some v) q w =
        (ENCOUNTERED_ERROR,
         w\<lparr>calls := calls w @ [GenerateContent v q],
           ui := ui w @ [(INFO, Thinking), (ERROR, GenerationError e)]\<rparr>))
   \<and> (generate_content E (length (calls w)) = Inr resp \<and> candidates resp = [] \<longrightarrow>
      get_gemini_response E (Some v) q w =
        (NO_RESPONSE, w\<lparr>ui := ui w @ [(INFO, Thinking)],
                         calls := calls w @ [GenerateContent v q]\<rparr>))
   \<and> get_gemini_response E None q w = (PLEASE_UPLOAD, w)
   \<and> calls (snd (get_gemini_response E (Some v) q w)) = calls w @ [GenerateContent v q]
   \<and> (generate_content E (length (calls w)) = Inr resp \<and> candidates resp \<noteq> []
       \<and> response_text resp = Inr t \<longrightarrow>
      get_gemini_response E (Some v) q w =
        (t, w\<lparr>ui := ui w @ [(INFO, Thinking)],
               calls := calls w @ [GenerateContent v q]\<rparr>))
   \<and> (NO_RESPONSE \<noteq> ENCOUNTERED_ERROR \<and> NO_RESPONSE \<noteq> PLEASE_UPLOAD
       \<and> ENCOUNTERED_ERROR \<noteq> PLEASE_UPLOAD)
   \<and> (uploaded_video_file_obj s = Some v
       \<and> (get_file E (length (calls w)) = Inl e
          \<or> (\<exists>ftd. get_file E (length (calls w)) = Inr ftd \<and> state_name ftd = ''ACTIVE''
                   \<and> delete_file E (Suc (length (calls w))) = Some e)) \<longrightarrow>
      fst (clear_chat_and_remove_video E (s, w)) =
        s\<lparr>messages := [], uploaded_file_name := None, uploaded_video_file_obj := None,
          upload_key := upload_key s + 1\<rparr>
      \<and> last (ui (snd (clear_chat_and_remove_video E (s, w)))) = (WARNING, CouldNotRemove e))"
proof (intro conjI impI)
  assume run: "upload_video_to_gemini E (Some f) w = Some (r, w')"
  then have rep: "reported (r, w')"
    unfolding upload_video_to_gemini_def by (rule upload_reported)
  then show "ui w' \<noteq> []"
    by (simp add: reported_def)
  from rep show "(r = None) = (fst (last (ui w')) = ERROR)"
    by (cases r) (simp_all add: reported_def)
  from rep show "(r \<noteq> None) = (fst (last (ui w')) = SUCCESS)"
    by (cases r) (simp_all add: reported_def)
next
  assume "NamedTemporaryFile E = Inr p \<and> tmp_file_write E = None
       \<and> upload_file E (length (calls w)) = Inl e"
  then show "\<exists>w1. upload_video_to_gemini E (Some f) w = Some (None, w1)
           \<and> last (ui w1) = (ERROR, UploadOrProcessingError e)"
    by (simp add: upload_video_to_gemini_def upload_raises)
next
  assume "NamedTemporaryFile E = Inr p \<and> tmp_file_write E = None
       \<and> upload_file E (length (calls w)) = Inr v \<and> state_name v = ''PROCESSING''
       \<and> processing_for E w 300 k
       \<and> 300 < time E (clock_reads w + 1 + k) - time E (clock_reads w)"
  then show "\<exists>w1. upload_video_to_gemini E (Some f) w = Some (None, w1)
           \<and> last (ui w1) = (ERROR, TimedOut 300)"
    using polls_then_timeout[of E p w v 300 k 5 f]
    by (auto simp: upload_video_to_gemini_def)
next
  assume "NamedTemporaryFile E = Inr p \<and> tmp_file_write E = None
       \<and> upload_file E (length (calls w)) = Inr v \<and> state_name v = ''PROCESSING''
       \<and> processing_for E w 300 k
       \<and> time E (clock_reads w + 1 + k) - time E (clock_reads w) \<le> 300
       \<and> get_file E (length (calls w) + 1 + k) = Inl e"
  then show "\<exists>w1. upload_video_to_gemini E (Some f) w = Some (None, w1)
           \<and> last (ui w1) = (ERROR, UploadOrProcessingError e)"
    using polls_then_raise[of E p w v 300 k e 5 f]
    by (auto simp: upload_video_to_gemini_def)
next
  assume "NamedTemporaryFile E = Inr p \<and> tmp_file_write E = None
       \<and> upload_file E (length (calls w)) = Inr v \<and> state_name v = ''PROCESSING''
       \<and> processing_for E w 300 k
       \<and> time E (clock_reads w + 1 + k) - time E (clock_reads w) \<le> 300
       \<and> get_file E (length (calls w) + 1 + k) = Inr vF \<and> state_name vF = ''FAILED''"
  then show "\<exists>w1. upload_video_to_gemini E (Some f) w = Some (None, w1)
           \<and> last (ui w1) = (ERROR, ProcessingFailed)"
    using polls_then_failed[of E p w v 300 k vF 5 f]
    by (auto simp: upload_video_to_gemini_def)
next
  assume "generate_content E (length (calls w)) = Inl e
       \<or> (\<exists>resp. generate_content E (length (calls w)) = Inr resp \<and> candidates resp \<noteq> []
                 \<and> response_text resp = Inl e)"
  then show "get_gemini_response E (Some v) q w =
        (ENCOUNTERED_ERROR,
         w\<lparr>calls := calls w @ [GenerateContent v q],
           ui := ui w @ [(INFO, Thinking), (ERROR, GenerationError e)]\<rparr>)"
    by (auto simp: query_raises query_text_raises)
next
  assume "generate_content E (length (calls w)) = Inr resp \<and> candidates resp = []"
  then show "get_gemini_response E (Some v) q w =
        (NO_RESPONSE, w\<lparr>ui := ui w @ [(INFO, Thinking)],
                         calls := calls w @ [GenerateContent v q]\<rparr>)"
    by (simp add: get_gemini_response_def model_generate_content_def st_def)
next
  show "get_gemini_response E None q w = (PLEASE_UPLOAD, w)"
    by (simp add: get_gemini_response_def)
next
  show "calls (snd (get_gemini_response E (Some v) q w)) = calls w @ [GenerateContent v q]"
    by (simp add: get_gemini_response_def model_generate_content_def st_def
        split: sum.splits)
next
  assume "generate_content E (length (calls w)) = Inr resp \<and> candidates resp \<noteq> []
       \<and> response_text resp = Inr t"
  then show "get_gemini_response E (Some v) q w =
        (t, w\<lparr>ui := ui w @ [(INFO, Thinking)],
               calls := calls w @ [GenerateContent v q]\<rparr>)"
    by (simp add: get_gemini_response_def model_generate_content_def st_def)
next
  show "NO_RESPONSE \<noteq> ENCOUNTERED_ERROR"
    by (simp add: NO_RESPONSE_def ENCOUNTERED_ERROR_def)
next
  show "NO_RESPONSE \<noteq> PLEASE_UPLOAD"
    by (simp add: NO_RESPONSE_def PLEASE_UPLOAD_def)
next
  show "ENCOUNTERED_ERROR \<noteq> PLEASE_UPLOAD"
    by (simp add: ENCOUNTERED_ERROR_def PLEASE_UPLOAD_def)
next
  assume a: "uploaded_video_file_obj s = Some v
       \<and> (get_file E (length (calls w)) = Inl e
          \<or> (\<exists>ftd. get_file E (length (calls w)) = Inr ftd \<and> state_name ftd = ''ACTIVE''
                   \<and> delete_file E (Suc (length (calls w))) = Some e))"
  then show "fst (clear_chat_and_remove_video E (s, w)) =
        s\<lparr>messages := [], uploaded_file_name := None, uploaded_video_file_obj := None,
          upload_key := upload_key s + 1\<rparr>"
    by (auto simp: clear_get_raises clear_deletes)
  from a show "last (ui (snd (clear_chat_and_remove_video E (s, w)))) = (WARNING, CouldNotRemove e)"
    by (auto simp: clear_get_raises clear_deletes)
qed

theorem errors_are_reported_witness:
  "(\<exists>r w'. upload_video_to_gemini
              (backend (\<lambda>k. if k < 3 then ''PROCESSING'' else ''FAILED'') (\<lambda>k. 5 * real k))
              (Some video0) w0 = Some (r, w')
          \<and> ui w' \<noteq> [] \<and> (r = None) = (fst (last (ui w')) = ERROR)
          \<and> (r \<noteq> None) = (fst (last (ui w')) = SUCCESS))
   \<and> (\<exists>w1. upload_video_to_gemini
              ((backend (\<lambda>k. ''PROCESSING'') real)
                 \<lparr>upload_file := (\<lambda>k. Inl (Exception ''ResourceExhausted''))\<rparr>)
              (Some video0) w0 = Some (None, w1)
          \<and> last (ui w1) = (ERROR, UploadOrProcessingError (Exception ''ResourceExhausted'')))
   \<and> (\<exists>w1. upload_video_to_gemini (backend (\<lambda>k. ''PROCESSING'') (\<lambda>k. 100 * real k))
              (Some video0) w0 = Some (None, w1)
          \<and> last (ui w1) = (ERROR, TimedOut 300))
   \<and> (\<exists>w1. upload_video_to_gemini
              ((backend (\<lambda>k. ''PROCESSING'') real)
                 \<lparr>get_file := (\<lambda>k. if k < 3 then Inr (file_in ''PROCESSING'')
                                     else Inl (Exception ''Unavailable''))\<rparr>)
              (Some video0) w0 = Some (None, w1)
          \<and> last (ui w1) = (ERROR, UploadOrProcessingError (Exception ''Unavailable'')))
   \<and> (\<exists>w1. upload_video_to_gemini
              (backend (\<lambda>k. if k < 3 then ''PROCESSING'' else ''FAILED'') (\<lambda>k. 5 * real k))
              (Some video0) w0 = Some (None, w1)
          \<and> last (ui w1) = (ERROR, ProcessingFailed))
   \<and> get_gemini_response
        ((backend (\<lambda>k. ''ACTIVE'') real)
           \<lparr>generate_content := (\<lambda>k. Inl (Exception ''DeadlineExceeded''))\<rparr>)
        (Some (file_in ''ACTIVE'')) ''Is my squat deep enough?'' w0 =
      (ENCOUNTERED_ERROR,
       w0\<lparr>calls := calls w0 @ [GenerateContent (file_in ''ACTIVE'') ''Is my squat deep enough?''],
          ui := ui w0 @ [(INFO, Thinking), (ERROR, GenerationError (Exception ''DeadlineExceeded''))]\<rparr>)
   \<and> get_gemini_response
        ((backend (\<lambda>k. ''ACTIVE'') real)
           \<lparr>generate_content :=
              (\<lambda>k. Inr \<lparr>candidates = [], response_text = Inl (Exception ''ValueError'')\<rparr>)\<rparr>)
        (Some (file_in ''ACTIVE'')) ''Is my squat deep enough?'' w0 =
      (NO_RESPONSE,
       w0\<lparr>ui := ui w0 @ [(INFO, Thinking)],
          calls := calls w0 @ [GenerateContent (file_in ''ACTIVE'') ''Is my squat deep enough?'']\<rparr>)
   \<and> get_gemini_response (backend (\<lambda>k. ''PROCESSING'') real) (Some (file_in ''PROCESSING''))
        ''Is my squat deep enough?'' w0 =
      (''Keep your back straight.'',
       w0\<lparr>ui := ui w0 @ [(INFO, Thinking)],
          calls := calls w0 @ [GenerateContent (file_in ''PROCESSING'')
                                 ''Is my squat deep enough?'']\<rparr>)
   \<and> fst (clear_chat_and_remove_video
             ((backend (\<lambda>k. ''ACTIVE'') real)\<lparr>delete_file := (\<lambda>k. Some (Exception ''NotFound''))\<rparr>)
             (session0, w0)) =
        session0\<lparr>messages := [], uploaded_file_name := None, uploaded_video_file_obj := None,
                 upload_key := upload_key session0 + 1\<rparr>
   \<and> last (ui (snd (clear_chat_and_remove_video
             ((backend (\<lambda>k. ''ACTIVE'') real)\<lparr>delete_file := (\<lambda>k. Some (Exception ''NotFound''))\<rparr>)
             (session0, w0)))) = (WARNING, CouldNotRemove (Exception ''NotFound''))"
proof (intro conjI)
  let ?E = "backend (\<lambda>k. if k < 3 then ''PROCESSING'' else ''FAILED'') (\<lambda>k. 5 * real k)"
  have "\<exists>rw. upload_video_with ?E 5 300 (Some video0) w0 = Some rw"
    by (rule upload_returns) (simp_all add: backend_def)
  then obtain r w' where run: "upload_video_to_gemini ?E (Some video0) w0 = Some (r, w')"
    by (auto simp: upload_video_to_gemini_def)
  from errors_are_reported[where E = ?E and f = video0 and w = w0 and r = r and w' = w',
      THEN conjunct1] run
  show "\<exists>r w'. upload_video_to_gemini ?E (Some video0) w0 = Some (r, w')
          \<and> ui w' \<noteq> [] \<and> (r = None) = (fst (last (ui w')) = ERROR)
          \<and> (r \<noteq> None) = (fst (last (ui w')) = SUCCESS)"
    by blast
next
  let ?E = "(backend (\<lambda>k. ''PROCESSING'') real)
                 \<lparr>upload_file := (\<lambda>k. Inl (Exception ''ResourceExhausted''))\<rparr>"
  show "\<exists>w1. upload_video_to_gemini ?E (Some video0) w0 = Some (None, w1)
          \<and> last (ui w1) = (ERROR, UploadOrProcessingError (Exception ''ResourceExhausted''))"
    using errors_are_reported[where E = ?E and f = video0 and w = w0 and p = tmp0
        and e = "Exception ''ResourceExhausted''", THEN conjunct2, THEN conjunct1]
    by (simp add: backend_def)
next
  let ?E = "backend (\<lambda>k. ''PROCESSING'') (\<lambda>k. 100 * real k)"
  show "\<exists>w1. upload_video_to_gemini ?E (Some video0) w0 = Some (None, w1)
          \<and> last (ui w1) = (ERROR, TimedOut 300)"
    using errors_are_reported[where E = ?E and f = video0 and w = w0 and p = tmp0
        and v = "file_in ''PROCESSING''" and k = 3,
        THEN conjunct2, THEN conjunct2, THEN conjunct1]
    by (simp add: backend_def w0_def file_in_def processing_for_iff)
next
  let ?E = "(backend (\<lambda>k. ''PROCESSING'') real)
                 \<lparr>get_file := (\<lambda>k. if k < 3 then Inr (file_in ''PROCESSING'')
                                     else Inl (Exception ''Unavailable''))\<rparr>"
  show "\<exists>w1. upload_video_to_gemini ?E (Some video0) w0 = Some (None, w1)
          \<and> last (ui w1) = (ERROR, UploadOrProcessingError (Exception ''Unavailable''))"
    using errors_are_reported[where E = ?E and f = video0 and w = w0 and p = tmp0
        and v = "file_in ''PROCESSING''" and k = 2 and e = "Exception ''Unavailable''",
        THEN conjunct2, THEN conjunct2, THEN conjunct2, THEN conjunct1]
    by (simp add: backend_def w0_def file_in_def processing_for_iff)
next
  let ?E = "backend (\<lambda>k. if k < 3 then ''PROCESSING'' else ''FAILED'') (\<lambda>k. 5 * real k)"
  show "\<exists>w1. upload_video_to_gemini ?E (Some video0) w0 = Some (None, w1)
          \<and> last (ui w1) = (ERROR, ProcessingFailed)"
    using errors_are_reported[where E = ?E and f = video0 and w = w0 and p = tmp0
        and v = "file_in ''PROCESSING''" and k = 2 and vF = "file_in ''FAILED''",
        THEN conjunct2, THEN conjunct2, THEN conjunct2, THEN conjunct2, THEN conjunct1]
    by (simp add: backend_def w0_def file_in_def processing_for_iff)
next
  let ?E = "(backend (\<lambda>k. ''ACTIVE'') real)
           \<lparr>generate_content := (\<lambda>k. Inl (Exception ''DeadlineExceeded''))\<rparr>"
  show "get_gemini_response ?E (Some (file_in ''ACTIVE'')) ''Is my squat deep enough?'' w0 =
      (ENCOUNTERED_ERROR,
       w0\<lparr>calls := calls w0 @ [GenerateContent (file_in ''ACTIVE'') ''Is my squat deep enough?''],
          ui := ui w0 @ [(INFO, Thinking), (ERROR, GenerationError (Exception ''DeadlineExceeded''))]\<rparr>)"
    using errors_are_reported[where E = ?E and w = w0 and v = "file_in ''ACTIVE''"
        and q = "''Is my squat deep enough?''" and e = "Exception ''DeadlineExceeded''",
        THEN conjunct2, THEN conjunct2, THEN conjunct2, THEN conjunct2, THEN conjunct2,
        THEN conjunct1]
    by simp
next
  let ?E = "(backend (\<lambda>k. ''ACTIVE'') real)
                \<lparr>generate_content :=
                   (\<lambda>k. Inr \<lparr>candidates = [], response_text = Inl (Exception ''ValueError'')\<rparr>)\<rparr>"
  show "get_gemini_response ?E (Some (file_in ''ACTIVE'')) ''Is my squat deep enough?'' w0 =
      (NO_RESPONSE,
       w0\<lparr>ui := ui w0 @ [(INFO, Thinking)],
          calls := calls w0 @ [GenerateContent (file_in ''ACTIVE'') ''Is my squat deep enough?'']\<rparr>)"
    using errors_are_reported[where E = ?E and w = w0 and v = "file_in ''ACTIVE''"
        and q = "''Is my squat deep enough?''"
        and resp = "\<lparr>candidates = [], response_text = Inl (Exception ''ValueError'')\<rparr>",
        THEN conjunct2, THEN conjunct2, THEN conjunct2, THEN conjunct2, THEN conjunct2,
        THEN conjunct2, THEN conjunct1]
    by simp
next
  let ?E = "backend (\<lambda>k. ''PROCESSING'') real"
  show "get_gemini_response ?E (Some (file_in ''PROCESSING'')) ''Is my squat deep enough?'' w0 =
      (''Keep your back straight.'',
       w0\<lparr>ui := ui w0 @ [(INFO, Thinking)],
          calls := calls w0 @ [GenerateContent (file_in ''PROCESSING'')
                                 ''Is my squat deep enough?'']\<rparr>)"
    using errors_are_reported[where E = ?E and w = w0 and v = "file_in ''PROCESSING''"
        and q = "''Is my squat deep enough?''"
        and resp = "\<lparr>candidates = [''c''], response_text = Inr ''Keep your back straight.''\<rparr>"
        and t = "''Keep your back straight.''",
        THEN conjunct2, THEN conjunct2, THEN conjunct2, THEN conjunct2, THEN conjunct2,
        THEN conjunct2, THEN conjunct2, THEN conjunct2, THEN conjunct2, THEN conjunct1]
    by (simp add: backend_def)
next
  let ?E = "(backend (\<lambda>k. ''ACTIVE'') real)\<lparr>delete_file := (\<lambda>k. Some (Exception ''NotFound''))\<rparr>"
  note clear = errors_are_reported[where E = ?E and w = w0 and s = session0
        and v = "file_in ''ACTIVE''" and e = "Exception ''NotFound''",
        THEN conjunct2, THEN conjunct2, THEN conjunct2, THEN conjunct2, THEN conjunct2,
        THEN conjunct2, THEN conjunct2, THEN conjunct2, THEN conjunct2, THEN conjunct2,
        THEN conjunct2]
  show "fst (clear_chat_and_remove_video ?E (session0, w0)) =
        session0\<lparr>messages := [], uploaded_file_name := None, uploaded_video_file_obj := None,
                 upload_key := upload_key session0 + 1\<rparr>"
    using clear by (simp add: backend_def session0_def file_in_def)
  show "last (ui (snd (clear_chat_and_remove_video ?E (session0, w0)))) =
          (WARNING, CouldNotRemove (Exception ''NotFound''))"
    using clear by (simp add: backend_def session0_def file_in_def)
qed

subsection \<open>C4: the timeout\<close>

text \<open>
  C4. A run in which the timeout test of line 61 finds the time limit exceeded (after
  any number \<open>k\<close> of polls that reported \<open>PROCESSING\<close> within the limit) returns \<open>None\<close>
  with the timeout reported as its last message; the SDK calls of the run are the upload
  and the \<open>k\<close> status polls, so nothing cancels or deletes the remote file; and the
  temporary file no longer exists when the function returns. The elapsed time is what
  the code measures: the reading of the clock at the head of an iteration minus the
  reading taken before the loop.
\<close>

theorem timeout_outcome:
  assumes "NamedTemporaryFile E = Inr p" and "tmp_file_write E = None"
    and "upload_file E (length (calls w)) = Inr v" and "state_name v = ''PROCESSING''"
    and "processing_for E w max_polling_time k"
    and "real_of_int max_polling_time < time E (clock_reads w + 1 + k) - time E (clock_reads w)"
  shows "\<exists>w' cs. upload_video_with E polling_interval max_polling_time (Some f) w = Some (None, w')
           \<and> last (ui w') = (ERROR, TimedOut max_polling_time)
           \<and> calls w' = calls w @ UploadFile p # cs \<and> length cs = k \<and> list_all is_get cs
           \<and> p \<notin> fs w'"
  using assms by (rule polls_then_timeout)

theorem timeout_outcome_witness:
  "\<exists>w' cs. upload_video_with (backend (\<lambda>k. ''PROCESSING'') (\<lambda>k. 100 * real k)) 5 300 (Some video0) w0
               = Some (None, w')
           \<and> last (ui w') = (ERROR, TimedOut 300)
           \<and> calls w' = calls w0 @ UploadFile tmp0 # cs \<and> length cs = 3 \<and> list_all is_get cs
           \<and> tmp0 \<notin> fs w'"
  using timeout_outcome[of "backend (\<lambda>k. ''PROCESSING'') (\<lambda>k. 100 * real k)" tmp0 w0
      "file_in ''PROCESSING''" 300 3 5 video0]
  by (simp add: backend_def w0_def file_in_def processing_for_iff)

subsection \<open>C5: a service that never reports ACTIVE\<close>




subsection \<open>C6: no candidates\<close>



subsection \<open>C7: the temporary file\<close>

text \<open>
  C7 says that the temporary file is unlinked on every way out of
  \<open>upload_video_to_gemini\<close>, and the comment of line 81 says the same of the \<open>except\<close>
  clause. One way out misses it: when \<open>tmp_file.write\<close> raises (line 46), the file has been
  created (\<open>delete=False\<close>) but \<open>tmp_file_path\<close> is not yet bound (line 47), so the test of
  line 80 skips the unlink. The theorem runs the function with a write that raises: it
  returns \<open>None\<close> with the error reported, and the temporary file is still there.
\<close>

theorem failed_write_leaves_temporary_file:
  "upload_video_to_gemini
       ((backend (\<lambda>k. ''ACTIVE'') real)\<lparr>tmp_file_write := Some (Exception ''OSError'')\<rparr>)
       (Some video0) w0 =
     Some (None,
           \<lparr>fs = {tmp0},
            ui = [(ERROR, UploadOrProcessingError (Exception ''OSError''))],
            calls = [], clock_reads = 0, slept = 0\<rparr>)"
  by (simp add: failed_write_keeps_file[where p = tmp0] backend_def w0_def)

text \<open>
  On the ways out that come after the staging (the temporary file created and written)
  the file is unlinked: on success, on a \<open>FAILED\<close> report, on an exception of the upload or
  of a poll, and on the timeout. (Lemma \<open>upload_returns\<close> says when the function returns.)
\<close>

lemma staged_file_released:
  assumes "NamedTemporaryFile E = Inr p" and "tmp_file_write E = None"
    and "upload_video_to_gemini E (Some f) w = Some (r, w')"
  shows "p \<notin> fs w'"
  using upload_unlinks[OF assms(1,2), of 5 300 f w "(r, w')"] assms(3)
  by (simp add: upload_video_to_gemini_def)

subsection \<open>C8: the clear button, twice\<close>

text \<open>
  C8. A second click on the clear button, right after a first one, issues no SDK call
  and shows no message (the world is the one the first click left), and leaves the
  session as the first click left it, with the handle cleared, the chat empty and no file
  name; only \<open>upload_key\<close>, the counter that resets the uploader widget, goes up once more.
  After the first click the handle is cleared whatever the service answered; when the
  service rejects the deletion, the exception is shown as a warning and the handler goes
  on as it does after a deletion.
\<close>

theorem release_idempotent:
  "clear_chat_and_remove_video E (clear_chat_and_remove_video E (s, w)) =
     ((fst (clear_chat_and_remove_video E (s, w)))\<lparr>upload_key := upload_key s + 2\<rparr>,
      snd (clear_chat_and_remove_video E (s, w)))
   \<and> uploaded_video_file_obj (fst (clear_chat_and_remove_video E (s, w))) = None
   \<and> messages (fst (clear_chat_and_remove_video E (s, w))) = []
   \<and> uploaded_file_name (fst (clear_chat_and_remove_video E (s, w))) = None
   \<and> (uploaded_video_file_obj s = Some v \<and> get_file E (length (calls w)) = Inr ftd
        \<and> state_name ftd = ''ACTIVE'' \<and> delete_file E (Suc (length (calls w))) = Some e
      \<longrightarrow> clear_chat_and_remove_video E (s, w) =
            (s\<lparr>messages := [], uploaded_file_name := None, uploaded_video_file_obj := None,
               upload_key := upload_key s + 1\<rparr>,
             w\<lparr>calls := calls w @ [GetFile (name v), DeleteFile (name v)],
               ui := ui w @ [(WARNING, CouldNotRemove e)]\<rparr>))"
proof (intro conjI impI)
  show "clear_chat_and_remove_video E (clear_chat_and_remove_video E (s, w)) =
     ((fst (clear_chat_and_remove_video E (s, w)))\<lparr>upload_key := upload_key s + 2\<rparr>,
      snd (clear_chat_and_remove_video E (s, w)))"
    by (simp add: clear_chat_and_remove_video_def remove_from_server_def)
next
  assume "uploaded_video_file_obj s = Some v \<and> get_file E (length (calls w)) = Inr ftd
        \<and> state_name ftd = ''ACTIVE'' \<and> delete_file E (Suc (length (calls w))) = Some e"
  then show "clear_chat_and_remove_video E (s, w) =
            (s\<lparr>messages := [], uploaded_file_name := None, uploaded_video_file_obj := None,
               upload_key := upload_key s + 1\<rparr>,
             w\<lparr>calls := calls w @ [GetFile (name v), DeleteFile (name v)],
               ui := ui w @ [(WARNING, CouldNotRemove e)]\<rparr>)"
    by (simp add: clear_deletes)
qed (simp_all add: clear_chat_and_remove_video_def)

theorem release_idempotent_witness:
  "clear_chat_and_remove_video
       ((backend (\<lambda>k. ''ACTIVE'') real)\<lparr>delete_file := (\<lambda>k. Some (Exception ''NotFound''))\<rparr>)
       (session0, w0) =
     (session0\<lparr>messages := [], uploaded_file_name := None, uploaded_video_file_obj := None,
               upload_key := upload_key session0 + 1\<rparr>,
      w0\<lparr>calls := calls w0 @ [GetFile (name (file_in ''ACTIVE'')),
                               DeleteFile (name (file_in ''ACTIVE''))],
         ui := ui w0 @ [(WARNING, CouldNotRemove (Exception ''NotFound''))]\<rparr>)"
  using release_idempotent[of
      "(backend (\<lambda>k. ''ACTIVE'') real)\<lparr>delete_file := (\<lambda>k. Some (Exception ''NotFound''))\<rparr>"
      session0 w0 "file_in ''ACTIVE''" "file_in ''ACTIVE''" "Exception ''NotFound''"]
  by (simp add: backend_def session0_def file_in_def w0_def)

subsection \<open>C9: a FAILED report, and two polls\<close>

text \<open>
  C9. The upload is accepted in state \<open>PROCESSING\<close>. First part: if, after any number
  \<open>k\<close> of polls that reported \<open>PROCESSING\<close>, the next poll reports \<open>FAILED\<close>, the function
  returns \<open>None\<close> with the failure as its last message, and the polls of the run are those
  \<open>k + 1\<close>: none follows the \<open>FAILED\<close> report. Second part, with \<open>polling_interval = 1\<close> and
  \<open>max_polling_time = 10\<close>: if the service reports \<open>PROCESSING\<close> twice (for the upload and
  for the first poll) and then \<open>ACTIVE\<close>, and both polls come within the time limit, the
  function returns the \<open>ACTIVE\<close> file and its SDK calls are the upload and exactly two
  polls.
\<close>

theorem failed_stops_polling:
  assumes "NamedTemporaryFile E = Inr p" and "tmp_file_write E = None"
    and "upload_file E (length (calls w)) = Inr v" and "state_name v = ''PROCESSING''"
  shows "(processing_for E w max_polling_time k
          \<and> time E (clock_reads w + 1 + k) - time E (clock_reads w) \<le> real_of_int max_polling_time
          \<and> get_file E (length (calls w) + 1 + k) = Inr vF \<and> state_name vF = ''FAILED''
          \<longrightarrow> (\<exists>w' cs. upload_video_with E polling_interval max_polling_time (Some f) w
                            = Some (None, w')
                   \<and> last (ui w') = (ERROR, ProcessingFailed)
                   \<and> calls w' = calls w @ UploadFile p # cs
                   \<and> length cs = Suc k \<and> list_all is_get cs))
       \<and> (get_file E (length (calls w) + 1) = Inr va \<and> state_name va = ''PROCESSING''
          \<and> get_file E (length (calls w) + 2) = Inr vb \<and> state_name vb = ''ACTIVE''
          \<and> time E (clock_reads w + 1) - time E (clock_reads w) \<le> 10
          \<and> time E (clock_reads w + 2) - time E (clock_reads w) \<le> 10
          \<longrightarrow> (\<exists>w'. upload_video_with E 1 10 (Some f) w = Some (Some vb, w')
                   \<and> state_name vb = ''ACTIVE''
                   \<and> calls w' = calls w @ [UploadFile p, GetFile (name v), GetFile (name va)]))"
proof (intro conjI impI)
  assume "processing_for E w max_polling_time k
          \<and> time E (clock_reads w + 1 + k) - time E (clock_reads w) \<le> real_of_int max_polling_time
          \<and> get_file E (length (calls w) + 1 + k) = Inr vF \<and> state_name vF = ''FAILED''"
  then have "\<exists>w' cs. upload_video_with E polling_interval max_polling_time (Some f) w
                            = Some (None, w')
                   \<and> last (ui w') = (ERROR, ProcessingFailed)
                   \<and> calls w' = calls w @ UploadFile p # cs
                   \<and> length cs = Suc k \<and> list_all is_get cs \<and> p \<notin> fs w'"
    using polls_then_failed[OF assms, of max_polling_time k vF polling_interval f] by blast
  then show "\<exists>w' cs. upload_video_with E polling_interval max_polling_time (Some f) w
                            = Some (None, w')
                   \<and> last (ui w') = (ERROR, ProcessingFailed)
                   \<and> calls w' = calls w @ UploadFile p # cs
                   \<and> length cs = Suc k \<and> list_all is_get cs"
    by blast
next
  assume a: "get_file E (length (calls w) + 1) = Inr va \<and> state_name va = ''PROCESSING''
          \<and> get_file E (length (calls w) + 2) = Inr vb \<and> state_name vb = ''ACTIVE''
          \<and> time E (clock_reads w + 1) - time E (clock_reads w) \<le> 10
          \<and> time E (clock_reads w + 2) - time E (clock_reads w) \<le> 10"
  then have "\<exists>w'. upload_video_with E 1 10 (Some f) w = Some (Some vb, w')
           \<and> calls w' = calls w @ [UploadFile p, GetFile (name v), GetFile (name va)]
           \<and> last (ui w') = (SUCCESS, ReadyForAnalysis (upload_name f))"
    using two_polls[OF assms, of va vb 10 1 f] by simp
  with a show "\<exists>w'. upload_video_with E 1 10 (Some f) w = Some (Some vb, w')
                   \<and> state_name vb = ''ACTIVE''
                   \<and> calls w' = calls w @ [UploadFile p, GetFile (name v), GetFile (name va)]"
    by blast
qed

theorem failed_stops_polling_witness:
  "(\<exists>w' cs. upload_video_with (backend (\<lambda>k. if k < 3 then ''PROCESSING'' else ''FAILED'') real)
               5 300 (Some video0) w0 = Some (None, w')
           \<and> last (ui w') = (ERROR, ProcessingFailed)
           \<and> calls w' = calls w0 @ UploadFile tmp0 # cs
           \<and> length cs = 3 \<and> list_all is_get cs)
   \<and> (\<exists>w'. upload_video_with (backend (\<lambda>k. if k < 2 then ''PROCESSING'' else ''ACTIVE'') real)
               1 10 (Some video0) w0 = Some (Some (file_in ''ACTIVE''), w')
           \<and> state_name (file_in ''ACTIVE'') = ''ACTIVE''
           \<and> calls w' = calls w0 @ [UploadFile tmp0, GetFile (name (file_in ''PROCESSING'')),
                                     GetFile (name (file_in ''PROCESSING''))])"
proof
  let ?E = "backend (\<lambda>k. if k < 3 then ''PROCESSING'' else ''FAILED'') real"
  show "\<exists>w' cs. upload_video_with ?E 5 300 (Some video0) w0 = Some (None, w')
           \<and> last (ui w') = (ERROR, ProcessingFailed)
           \<and> calls w' = calls w0 @ UploadFile tmp0 # cs
           \<and> length cs = 3 \<and> list_all is_get cs"
    using failed_stops_polling[where E = ?E and p = tmp0 and w = w0
        and v = "file_in ''PROCESSING''" and max_polling_time = 300 and k = 2
        and vF = "file_in ''FAILED''" and polling_interval = 5 and f = video0, THEN conjunct1]
    by (simp add: backend_def w0_def file_in_def processing_for_iff)
next
  let ?E = "backend (\<lambda>k. if k < 2 then ''PROCESSING'' else ''ACTIVE'') real"
  show "\<exists>w'. upload_video_with ?E 1 10 (Some video0) w0 = Some (Some (file_in ''ACTIVE''), w')
           \<and> state_name (file_in ''ACTIVE'') = ''ACTIVE''
           \<and> calls w' = calls w0 @ [UploadFile tmp0, GetFile (name (file_in ''PROCESSING'')),
                                     GetFile (name (file_in ''PROCESSING''))]"
    using failed_stops_polling[where E = ?E and p = tmp0 and w = w0
        and v = "file_in ''PROCESSING''" and va = "file_in ''PROCESSING''"
        and vb = "file_in ''ACTIVE''" and f = video0, THEN conjunct2]
    by (simp add: backend_def w0_def file_in_def)
qed

subsection \<open>C10: when the clear button deletes\<close>

text \<open>
  C10. With a handle in the session, the clear button first asks the service for the
  file. It issues the deletion request exactly when that reply is a file in state
  \<open>ACTIVE\<close>; after any other reply (another state, or an exception, as for a resource the
  service no longer knows) the status request is the only SDK call. When the reply is a
  file in another state, the page gets the warning of line 237 that names the state. In
  every case the handle is cleared.
\<close>

theorem deletes_only_active:
  assumes "uploaded_video_file_obj s = Some v"
  shows "calls (snd (clear_chat_and_remove_video E (s, w))) =
           calls w @
           (if (case get_file E (length (calls w)) of
                  Inl e \<Rightarrow> False
                | Inr ftd \<Rightarrow> state_name ftd = ''ACTIVE'')
            then [GetFile (name v), DeleteFile (name v)]
            else [GetFile (name v)])
         \<and> uploaded_video_file_obj (fst (clear_chat_and_remove_video E (s, w))) = None
         \<and> (get_file E (length (calls w)) = Inr ftd \<and> state_name ftd \<noteq> ''ACTIVE''
            \<longrightarrow> ui (snd (clear_chat_and_remove_video E (s, w))) =
                  ui w @ [(WARNING, SkippingDeletion (name v) (state_name ftd))])"
proof (intro conjI impI)
  show "calls (snd (clear_chat_and_remove_video E (s, w))) =
           calls w @
           (if (case get_file E (length (calls w)) of
                  Inl e \<Rightarrow> False
                | Inr ftd \<Rightarrow> state_name ftd = ''ACTIVE'')
            then [GetFile (name v), DeleteFile (name v)]
            else [GetFile (name v)])"
  proof (cases "get_file E (length (calls w))")
    case (Inl e)
    then show ?thesis by (simp add: clear_get_raises[OF assms])
  next
    case (Inr ftd)
    then show ?thesis
      by (cases "state_name ftd = ''ACTIVE''")
         (simp_all add: clear_deletes[OF assms] clear_skips[OF assms])
  qed
next
  show "uploaded_video_file_obj (fst (clear_chat_and_remove_video E (s, w))) = None"
    by (rule clear_clears)
next
  assume "get_file E (length (calls w)) = Inr ftd \<and> state_name ftd \<noteq> ''ACTIVE''"
  then show "ui (snd (clear_chat_and_remove_video E (s, w))) =
                  ui w @ [(WARNING, SkippingDeletion (name v) (state_name ftd))]"
    by (simp add: clear_skips[OF assms])
qed

theorem deletes_only_active_witness:
  "calls (snd (clear_chat_and_remove_video (backend (\<lambda>k. ''FAILED'') real) (session0, w0))) =
     [GetFile ''files/k7'']
   \<and> uploaded_video_file_obj
       (fst (clear_chat_and_remove_video (backend (\<lambda>k. ''FAILED'') real) (session0, w0))) = None
   \<and> ui (snd (clear_chat_and_remove_video (backend (\<lambda>k. ''FAILED'') real) (session0, w0))) =
       [(WARNING, SkippingDeletion ''files/k7'' ''FAILED'')]"
  using deletes_only_active[of session0 "file_in ''ACTIVE''" "backend (\<lambda>k. ''FAILED'') real" w0
      "file_in ''FAILED''"]
  by (simp add: backend_def session0_def file_in_def w0_def)

end
